theory Spec2Isabelle
  imports Complex_Main
begin

section \<open>The Langues metric: embedding of langues\_metric.py\<close>

text \<open>
  A Python \<open>float\<close> is modelled by a \<^typ>\<open>real\<close>, and the exceptions the functions can
  raise are values of a sum type:
  \<^item> \<open>IndexError\<close>, from a list subscript out of range;
  \<^item> \<open>OverflowError\<close>, from \<open>math.exp\<close> and from \<open>**\<close>, when the result is beyond the
    largest finite double.
  The other operations (\<open>+\<close>, \<open>-\<close>, \<open>*\<close>, \<open>abs\<close>, \<open>min\<close>, \<open>math.sin\<close>, \<open>math.cos\<close>,
  \<open>math.sqrt\<close> of a non-negative number) raise nothing on finite doubles; where one of
  them overflows the program goes on with an infinity, which the model does not have,
  so the inputs are taken to keep the differences \<open>x[l] - ideal[l]\<close> finite. Rounding is
  not modelled: a value of the model is the exact value of which the program computes a
  double approximation, so the statements below are either about which exception is
  raised, or equalities between results computed by the same operations, or
  inequalities that hold with a margin far above the rounding error.
\<close>

subsection \<open>Constants\<close>

definition PHI :: real where
  "PHI = (1 + sqrt 5) / 2"

definition TAU :: real where
  "TAU = 2 * pi"

definition TONGUES :: "string list" where
  "TONGUES = [''KO'', ''AV'', ''RU'', ''CA'', ''UM'', ''DR'']"

definition TONGUE_WEIGHTS :: "real list" where
  "TONGUE_WEIGHTS = map (\<lambda>k. PHI ^ k) [0..<6]"

definition TONGUE_PHASES :: "real list" where
  "TONGUE_PHASES = map (\<lambda>k. TAU * real k / 6) [0..<6]"

definition TONGUE_FREQUENCIES :: "real list" where
  "TONGUE_FREQUENCIES = [1, 9 / 8, 5 / 4, 4 / 3, 3 / 2, 5 / 3]"

subsection \<open>Points and the ideal state\<close>

datatype error = IndexError | OverflowError

record HyperspacePoint =
  time :: real
  intent :: real
  policy :: real
  trust :: real
  risk :: real
  entropy :: real

text \<open>The dataclass defaults of \<open>HyperspacePoint()\<close>.\<close>

definition HyperspacePoint_default :: HyperspacePoint where
  "HyperspacePoint_default =
     \<lparr>time = 0, intent = 0, policy = 0, trust = 0.8, risk = 0.1, entropy = 0.1\<rparr>"

definition to_vector :: "HyperspacePoint \<Rightarrow> real list" where
  "to_vector p = [time p, intent p, policy p, trust p, risk p, entropy p]"

text \<open>\<open>v[i]\<close> for a non-negative literal index: an \<open>IndexError\<close> out of range.\<close>

definition getitem :: "'a list \<Rightarrow> nat \<Rightarrow> error + 'a" where
  "getitem v i = (if i < length v then Inr (v ! i) else Inl IndexError)"

text \<open>
  \<open>from_vector\<close> reads \<open>v[0]\<close>, ..., \<open>v[5]\<close> in this order; the first subscript out of
  range raises. Nothing looks at the length of \<open>v\<close> otherwise.
\<close>

definition from_vector :: "real list \<Rightarrow> error + HyperspacePoint" where
  "from_vector v =
     (case getitem v 0 of Inl e \<Rightarrow> Inl e | Inr a0 \<Rightarrow>
     (case getitem v 1 of Inl e \<Rightarrow> Inl e | Inr a1 \<Rightarrow>
     (case getitem v 2 of Inl e \<Rightarrow> Inl e | Inr a2 \<Rightarrow>
     (case getitem v 3 of Inl e \<Rightarrow> Inl e | Inr a3 \<Rightarrow>
     (case getitem v 4 of Inl e \<Rightarrow> Inl e | Inr a4 \<Rightarrow>
     (case getitem v 5 of Inl e \<Rightarrow> Inl e | Inr a5 \<Rightarrow>
        Inr \<lparr>time = a0, intent = a1, policy = a2, trust = a3, risk = a4,
             entropy = a5\<rparr>))))))"

record IdealState =
  ideal_time :: real
  ideal_intent :: real
  ideal_policy :: real
  ideal_trust :: real
  ideal_risk :: real
  ideal_entropy :: real

text \<open>The dataclass defaults of \<open>IdealState()\<close>.\<close>

definition IdealState_default :: IdealState where
  "IdealState_default =
     \<lparr>ideal_time = 0, ideal_intent = 0, ideal_policy = 0.5, ideal_trust = 0.9,
      ideal_risk = 0.1, ideal_entropy = 0.2\<rparr>"

definition ideal_to_vector :: "IdealState \<Rightarrow> real list" where
  "ideal_to_vector s =
     [ideal_time s, ideal_intent s, ideal_policy s, ideal_trust s, ideal_risk s, ideal_entropy s]"

subsection \<open>The two operations that raise on overflow\<close>

text \<open>The largest finite double, \<open>(2 - 2^-52) * 2^1023\<close>.\<close>

definition DBL_MAX :: real where
  "DBL_MAX = 2 ^ 1024 - 2 ^ 971"

text \<open>\<open>math.exp(y)\<close>: \<open>OverflowError\<close> (math range error) when the result overflows.\<close>

definition math_exp :: "real \<Rightarrow> error + real" where
  "math_exp y = (if DBL_MAX < exp y then Inl OverflowError else Inr (exp y))"

text \<open>\<open>d ** 2\<close> on floats: \<open>OverflowError\<close> when the square overflows.\<close>

definition float_pow2 :: "real \<Rightarrow> error + real" where
  "float_pow2 d = (if DBL_MAX < d ^ 2 then Inl OverflowError else Inr (d ^ 2))"

subsection \<open>The metric\<close>

record LanguesMetric =
  beta_base :: real
  clamp_max :: real
  ideal :: IdealState
  betas :: "real list"

text \<open>\<open>LanguesMetric.__init__\<close>; \<open>None\<close> for \<open>ideal\<close> gives the default ideal state.\<close>

definition LanguesMetric_init :: "real \<Rightarrow> real \<Rightarrow> IdealState option \<Rightarrow> LanguesMetric" where
  "LanguesMetric_init bb cm io =
     \<lparr>beta_base = bb, clamp_max = cm,
      ideal = (case io of None \<Rightarrow> IdealState_default | Some i \<Rightarrow> i),
      betas = map (\<lambda>phi. bb + 0.1 * cos phi) TONGUE_PHASES\<rparr>"

text \<open>\<open>LanguesMetric()\<close>: \<open>beta_base = 1.0\<close>, \<open>clamp_max = 1e6\<close>, default ideal state.\<close>

definition LanguesMetric_default :: LanguesMetric where
  "LanguesMetric_default = LanguesMetric_init 1 1000000 None"

definition compute_deviations :: "LanguesMetric \<Rightarrow> HyperspacePoint \<Rightarrow> real list" where
  "compute_deviations m x =
     (let x_vec = to_vector x; mu_vec = ideal_to_vector (ideal m)
      in map (\<lambda>l. \<bar>x_vec ! l - mu_vec ! l\<bar>) [0..<6])"

text \<open>
  The truth value Python gives \<open>active_tongues\<close> in \<open>if active_tongues and ...\<close>:
  \<open>None\<close> and the empty list are false.
\<close>

definition truthy :: "string list option \<Rightarrow> bool" where
  "truthy a = (case a of None \<Rightarrow> False | Some ts \<Rightarrow> ts \<noteq> [])"

definition tongue_skipped :: "string list option \<Rightarrow> nat \<Rightarrow> bool" where
  "tongue_skipped a l =
     (truthy a \<and> (case a of None \<Rightarrow> False | Some ts \<Rightarrow> TONGUES ! l \<notin> set ts))"

text \<open>
  The loop of \<open>compute\<close> over the dimensions still to visit, from the running total
  \<open>L\<close>. An \<open>OverflowError\<close> of \<open>math.exp\<close> leaves the loop and the function.
\<close>

fun compute_loop ::
  "LanguesMetric \<Rightarrow> real list \<Rightarrow> real \<Rightarrow> string list option \<Rightarrow> real \<Rightarrow> nat list
     \<Rightarrow> error + real" where
  "compute_loop m deviations t a L [] = Inr L"
| "compute_loop m deviations t a L (l # ls) =
     (if tongue_skipped a l then compute_loop m deviations t a L ls
      else
        let w_l = TONGUE_WEIGHTS ! l;
            beta_l = betas m ! l;
            omega_l = TONGUE_FREQUENCIES ! l;
            phi_l = TONGUE_PHASES ! l;
            d_l = deviations ! l;
            phase_shift = sin (omega_l * t + phi_l);
            shifted_d = d_l + 0.1 * phase_shift
        in case math_exp (beta_l * shifted_d) of
             Inl e \<Rightarrow> Inl e
           | Inr exp_term \<Rightarrow> compute_loop m deviations t a (L + w_l * exp_term) ls)"

definition compute ::
  "LanguesMetric \<Rightarrow> HyperspacePoint \<Rightarrow> real \<Rightarrow> string list option \<Rightarrow> error + real" where
  "compute m x t a =
     (let deviations = compute_deviations m x
      in case compute_loop m deviations t a 0 [0..<6] of
           Inl e \<Rightarrow> Inl e
         | Inr L \<Rightarrow> Inr (min L (clamp_max m)))"



definition risk_level :: "real \<Rightarrow> string \<times> string" where
  "risk_level L =
     (let L_base = sum_list TONGUE_WEIGHTS in
      if L < L_base * 1.5 then (''LOW'', ''ALLOW'')
      else if L < L_base * 3.0 then (''MEDIUM'', ''QUARANTINE'')
      else if L < L_base * 10.0 then (''HIGH'', ''REVIEW'')
      else (''CRITICAL'', ''DENY''))"

subsection \<open>Distance\<close>

text \<open>The loop of \<open>langues_distance\<close>, from the running sum \<open>d_sq\<close>.\<close>

fun distance_loop :: "real list \<Rightarrow> real list \<Rightarrow> real \<Rightarrow> nat list \<Rightarrow> error + real" where
  "distance_loop v1 v2 d_sq [] = Inr d_sq"
| "distance_loop v1 v2 d_sq (l # ls) =
     (let w_l = TONGUE_WEIGHTS ! l;
          diff = v1 ! l - v2 ! l
      in case float_pow2 diff of
           Inl e \<Rightarrow> Inl e
         | Inr sq \<Rightarrow> distance_loop v1 v2 (d_sq + w_l * sq) ls)"

text \<open>
  The \<open>metric\<close> argument is bound and never read. The sum \<open>d_sq\<close> is not negative, so
  \<open>math.sqrt\<close> raises nothing.
\<close>

definition langues_distance ::
  "HyperspacePoint \<Rightarrow> HyperspacePoint \<Rightarrow> LanguesMetric option \<Rightarrow> error + real" where
  "langues_distance x1 x2 metric =
     (let v1 = to_vector x1; v2 = to_vector x2
      in case distance_loop v1 v2 0 [0..<6] of
           Inl e \<Rightarrow> Inl e
         | Inr d_sq \<Rightarrow> Inr (sqrt d_sq))"

subsection \<open>The monotonicity self-check\<close>




subsection \<open>The formulas of the specification\<close>

text \<open>
  The argument of the exponential of dimension \<open>l\<close>,
  \<open>beta[l] * (|x[l] - ideal[l]| + 0.1 * sin (frequency[l] * t + phase[l]))\<close>, and the term
  \<open>weight[l] * exp (...)\<close> of the sum, as the specification writes them.
\<close>

definition exp_arg :: "LanguesMetric \<Rightarrow> HyperspacePoint \<Rightarrow> real \<Rightarrow> nat \<Rightarrow> real" where
  "exp_arg m x t l =
     betas m ! l *
       (\<bar>to_vector x ! l - ideal_to_vector (ideal m) ! l\<bar>
          + 0.1 * sin (TONGUE_FREQUENCIES ! l * t + TONGUE_PHASES ! l))"

definition compute_term :: "LanguesMetric \<Rightarrow> HyperspacePoint \<Rightarrow> real \<Rightarrow> nat \<Rightarrow> real" where
  "compute_term m x t l = TONGUE_WEIGHTS ! l * exp (exp_arg m x t l)"

text \<open>The sum of the terms of the dimensions that are not skipped, clamped above.\<close>

definition compute_spec ::
  "LanguesMetric \<Rightarrow> HyperspacePoint \<Rightarrow> real \<Rightarrow> string list option \<Rightarrow> real" where
  "compute_spec m x t a =
     min (\<Sum>l\<leftarrow>filter (\<lambda>l. \<not> tongue_skipped a l) [0..<6]. compute_term m x t l) (clamp_max m)"


section \<open>Properties\<close>

subsection \<open>The constant tables\<close>

lemma upt6: "[0..<6] = [0, 1, 2, 3, 4, 5::nat]"
  by (simp add: upt_rec)

lemma sqrt5_bounds: "2.236 < sqrt 5" "sqrt 5 < 2.2361"
proof -
  show "2.236 < sqrt 5" by (rule real_less_rsqrt) (simp add: power2_eq_square)
  show "sqrt 5 < 2.2361" by (rule real_less_lsqrt) (simp_all add: power2_eq_square)
qed

lemma PHI_bounds: "1.618 < PHI" "PHI < 1.6181"
  using sqrt5_bounds by (simp_all add: PHI_def)

lemma PHI_pos: "0 < PHI"
  using PHI_bounds by simp

lemma PHI_sq: "PHI * PHI = PHI + 1"
proof -
  have "sqrt 5 * sqrt 5 = 5" by simp
  then show ?thesis by (simp add: PHI_def field_simps)
qed

lemma TONGUE_WEIGHTS_pos: "l < 6 \<Longrightarrow> 0 < TONGUE_WEIGHTS ! l"
  using PHI_pos by (simp add: TONGUE_WEIGHTS_def del: upt_Suc)

text \<open>Every power of the golden ratio is linear in it, so the weights add up to \<open>12 PHI + 8\<close>.\<close>

lemma TONGUE_WEIGHTS_linear:
  "TONGUE_WEIGHTS = [1, PHI, PHI + 1, 2 * PHI + 1, 3 * PHI + 2, 5 * PHI + 3]"
proof -
  have p2: "PHI ^ 2 = PHI + 1" using PHI_sq by (simp add: power2_eq_square)
  have p3: "PHI ^ 3 = 2 * PHI + 1" using PHI_sq by (simp add: power3_eq_cube algebra_simps)
  have p4: "PHI ^ 4 = 3 * PHI + 2"
  proof -
    have "PHI ^ 4 = PHI ^ 2 * PHI ^ 2" by (simp add: power_add [symmetric])
    then show ?thesis using PHI_sq by (simp add: p2 algebra_simps)
  qed
  have p5: "PHI ^ 5 = 5 * PHI + 3"
  proof -
    have "PHI ^ 5 = PHI ^ 2 * PHI ^ 3" by (simp add: power_add [symmetric])
    then show ?thesis using PHI_sq by (simp add: p2 p3 algebra_simps)
  qed
  show ?thesis by (simp add: TONGUE_WEIGHTS_def upt6 p2 p3 p4 p5)
qed

lemma L_base_eq: "sum_list TONGUE_WEIGHTS = 12 * PHI + 8"
  by (simp add: TONGUE_WEIGHTS_linear)

lemma L_base_bounds: "27.416 < sum_list TONGUE_WEIGHTS" "sum_list TONGUE_WEIGHTS < 27.4172"
  using PHI_bounds by (simp_all add: L_base_eq)


subsection \<open>Overflow of the exponential\<close>

lemma DBL_MAX_ge: "3 ^ 34 \<le> DBL_MAX"
  by (simp add: DBL_MAX_def)

lemma exp_nat_le: "exp (real n) \<le> 3 ^ n"
proof -
  have "exp (real n) = exp 1 ^ n" using exp_of_nat_mult[of n "1::real"] by simp
  also have "\<dots> \<le> 3 ^ n" by (intro power_mono exp_le) simp
  finally show ?thesis .
qed

lemma exp_nat_ge: "(5 / 2) ^ n \<le> exp (real n)"
proof -
  have "(5 / 2 :: real) \<le> exp 1"
    using exp_lower_Taylor_quadratic[of "1::real"] by simp
  then have "(5 / 2 :: real) ^ n \<le> exp 1 ^ n" by (intro power_mono) simp_all
  also have "\<dots> = exp (real n)" using exp_of_nat_mult[of n "1::real"] by simp
  finally show ?thesis .
qed

lemma exp_in_range: "y \<le> 34 \<Longrightarrow> exp (y::real) \<le> DBL_MAX"
proof -
  assume "y \<le> 34"
  then have "exp y \<le> exp (real 34)" by simp
  also have "\<dots> \<le> 3 ^ 34" by (rule exp_nat_le)
  also have "\<dots> \<le> DBL_MAX" by (rule DBL_MAX_ge)
  finally show ?thesis .
qed

lemma exp_out_of_range: "798 \<le> y \<Longrightarrow> DBL_MAX < exp (y::real)"
proof -
  assume y: "798 \<le> y"
  have "(2::real) ^ 9 \<le> (5 / 2) ^ 7" by (simp add: power_divide)
  then have "((2::real) ^ 9) ^ 114 \<le> ((5 / 2) ^ 7) ^ 114" by (intro power_mono) simp_all
  then have "(2::real) ^ 1026 \<le> (5 / 2) ^ 798"
    by (simp only: power_mult [symmetric]) simp
  moreover have "DBL_MAX < 2 ^ 1026" by (simp add: DBL_MAX_def)
  ultimately have "DBL_MAX < (5 / 2) ^ 798" by linarith
  also have "\<dots> \<le> exp (real 798)" by (rule exp_nat_ge)
  also have "\<dots> \<le> exp y" using y by simp
  finally show ?thesis .
qed

lemma math_exp_Inr: "exp y \<le> DBL_MAX \<Longrightarrow> math_exp y = Inr (exp y)"
  by (simp add: math_exp_def)

lemma math_exp_Inl: "DBL_MAX < exp y \<Longrightarrow> math_exp y = Inl OverflowError"
  by (simp add: math_exp_def)

subsection \<open>The loop of \<open>compute\<close>\<close>

lemma compute_deviations_nth:
  "l < 6 \<Longrightarrow> compute_deviations m x ! l = \<bar>to_vector x ! l - ideal_to_vector (ideal m) ! l\<bar>"
  by (simp add: compute_deviations_def Let_def del: upt_Suc)

lemma compute_deviations_nonneg: "l < 6 \<Longrightarrow> 0 \<le> compute_deviations m x ! l"
  by (simp add: compute_deviations_nth)

lemma exp_arg_dev:
  "l < 6 \<Longrightarrow> exp_arg m x t l =
     betas m ! l * (compute_deviations m x ! l
       + 0.1 * sin (TONGUE_FREQUENCIES ! l * t + TONGUE_PHASES ! l))"
  by (simp add: exp_arg_def compute_deviations_nth)

declare compute_loop.simps(2) [simp del]

lemma compute_loop_Cons:
  assumes "l < 6"
  shows "compute_loop m (compute_deviations m x) t a L (l # ls) =
     (if tongue_skipped a l then compute_loop m (compute_deviations m x) t a L ls
      else case math_exp (exp_arg m x t l) of
             Inl e \<Rightarrow> Inl e
           | Inr exp_term \<Rightarrow>
               compute_loop m (compute_deviations m x) t a (L + TONGUE_WEIGHTS ! l * exp_term) ls)"
  unfolding exp_arg_dev[OF assms] by (simp only: compute_loop.simps Let_def)

text \<open>When no exponential of a visited dimension overflows, the loop returns the sum.\<close>

lemma compute_loop_returns:
  assumes "set ls \<subseteq> {0..<6}"
    and "\<forall>l\<in>set ls. \<not> tongue_skipped a l \<longrightarrow> exp (exp_arg m x t l) \<le> DBL_MAX"
  shows "compute_loop m (compute_deviations m x) t a L ls =
           Inr (L + (\<Sum>l\<leftarrow>filter (\<lambda>l. \<not> tongue_skipped a l) ls. compute_term m x t l))"
  using assms
proof (induction ls arbitrary: L)
  case Nil
  then show ?case by simp
next
  case (Cons l ls)
  then have l: "l < 6" by simp
  from Cons.prems have tl: "set ls \<subseteq> {0..<6}"
    "\<forall>l\<in>set ls. \<not> tongue_skipped a l \<longrightarrow> exp (exp_arg m x t l) \<le> DBL_MAX"
    by simp_all
  show ?case
  proof (cases "tongue_skipped a l")
    case True
    then show ?thesis using Cons.IH[OF tl] by (simp add: compute_loop_Cons[OF l])
  next
    case False
    then have "exp (exp_arg m x t l) \<le> DBL_MAX" using Cons.prems(2) by simp
    then have "math_exp (exp_arg m x t l) = Inr (exp (exp_arg m x t l))"
      by (rule math_exp_Inr)
    then show ?thesis
      using False Cons.IH[OF tl, of "L + TONGUE_WEIGHTS ! l * exp (exp_arg m x t l)"]
      by (simp add: compute_loop_Cons[OF l] compute_term_def algebra_simps)
  qed
qed

text \<open>When the exponential of a visited dimension overflows, the loop raises.\<close>

lemma compute_loop_raises:
  assumes "set ls \<subseteq> {0..<6}"
    and "\<exists>l\<in>set ls. \<not> tongue_skipped a l \<and> DBL_MAX < exp (exp_arg m x t l)"
  shows "compute_loop m (compute_deviations m x) t a L ls = Inl OverflowError"
  using assms
proof (induction ls arbitrary: L)
  case Nil
  then show ?case by simp
next
  case (Cons l ls)
  then have l: "l < 6" by simp
  from Cons.prems have tl: "set ls \<subseteq> {0..<6}" by simp
  show ?case
  proof (cases "\<not> tongue_skipped a l \<and> DBL_MAX < exp (exp_arg m x t l)")
    case True
    then have "math_exp (exp_arg m x t l) = Inl OverflowError" by (simp add: math_exp_Inl)
    then show ?thesis using True by (simp add: compute_loop_Cons[OF l])
  next
    case False
    with Cons.prems(2) have ex: "\<exists>l\<in>set ls. \<not> tongue_skipped a l \<and> DBL_MAX < exp (exp_arg m x t l)"
      by auto
    show ?thesis
    proof (cases "tongue_skipped a l")
      case True
      then show ?thesis using Cons.IH[OF tl ex] by (simp add: compute_loop_Cons[OF l])
    next
      case nskip: False
      with False have "exp (exp_arg m x t l) \<le> DBL_MAX" by simp
      then have "math_exp (exp_arg m x t l) = Inr (exp (exp_arg m x t l))"
        by (rule math_exp_Inr)
      then show ?thesis
        using nskip Cons.IH[OF tl ex] by (simp add: compute_loop_Cons[OF l])
    qed
  qed
qed

lemma compute_returns:
  assumes "\<forall>l<6. \<not> tongue_skipped a l \<longrightarrow> exp (exp_arg m x t l) \<le> DBL_MAX"
  shows "compute m x t a = Inr (compute_spec m x t a)"
proof -
  have "compute_loop m (compute_deviations m x) t a 0 [0..<6] =
          Inr (0 + (\<Sum>l\<leftarrow>filter (\<lambda>l. \<not> tongue_skipped a l) [0..<6]. compute_term m x t l))"
    by (rule compute_loop_returns) (use assms in auto)
  then show ?thesis by (simp add: compute_def compute_spec_def Let_def del: upt_Suc)
qed

lemma compute_raises:
  assumes "l < 6" "\<not> tongue_skipped a l" "DBL_MAX < exp (exp_arg m x t l)"
  shows "compute m x t a = Inl OverflowError"
proof -
  have "compute_loop m (compute_deviations m x) t a 0 [0..<6] = Inl OverflowError"
    by (rule compute_loop_raises) (use assms in auto)
  then show ?thesis by (simp add: compute_def Let_def del: upt_Suc)
qed

lemma not_skipped_None: "\<not> tongue_skipped None l"
  by (simp add: tongue_skipped_def truthy_def)


lemma compute_spec_None:
  "compute_spec m x t None = min (\<Sum>l\<leftarrow>[0..<6]. compute_term m x t l) (clamp_max m)"
  by (simp add: compute_spec_def not_skipped_None del: upt_Suc)

subsection \<open>Risk bands\<close>

text \<open>
  C4. \<open>risk_level\<close> classifies against \<open>L_base\<close>, the sum of the six weights: LOW/ALLOW
  exactly below \<open>1.5 L_base\<close>, MEDIUM/QUARANTINE exactly from \<open>1.5 L_base\<close> to below
  \<open>3 L_base\<close>, HIGH/REVIEW exactly from \<open>3 L_base\<close> to below \<open>10 L_base\<close>, CRITICAL/DENY
  exactly from \<open>10 L_base\<close> on; a value on a boundary is in the higher band.
\<close>

theorem risk_level_bands:
  "(risk_level L = (''LOW'', ''ALLOW'') \<longleftrightarrow> L < 1.5 * sum_list TONGUE_WEIGHTS) \<and>
   (risk_level L = (''MEDIUM'', ''QUARANTINE'') \<longleftrightarrow>
      1.5 * sum_list TONGUE_WEIGHTS \<le> L \<and> L < 3 * sum_list TONGUE_WEIGHTS) \<and>
   (risk_level L = (''HIGH'', ''REVIEW'') \<longleftrightarrow>
      3 * sum_list TONGUE_WEIGHTS \<le> L \<and> L < 10 * sum_list TONGUE_WEIGHTS) \<and>
   (risk_level L = (''CRITICAL'', ''DENY'') \<longleftrightarrow> 10 * sum_list TONGUE_WEIGHTS \<le> L) \<and>
   risk_level (1.5 * sum_list TONGUE_WEIGHTS) = (''MEDIUM'', ''QUARANTINE'') \<and>
   risk_level (3 * sum_list TONGUE_WEIGHTS) = (''HIGH'', ''REVIEW'') \<and>
   risk_level (10 * sum_list TONGUE_WEIGHTS) = (''CRITICAL'', ''DENY'')"
  using L_base_bounds(1) by (auto simp: risk_level_def Let_def)

subsection \<open>Conversion from a vector\<close>

lemma from_vector_short: "length v < 6 \<Longrightarrow> from_vector v = Inl IndexError"
  by (auto simp: from_vector_def getitem_def split: sum.splits)

lemma from_vector_long:
  "6 \<le> length v \<Longrightarrow>
   from_vector v =
     Inr \<lparr>time = v ! 0, intent = v ! 1, policy = v ! 2, trust = v ! 3, risk = v ! 4,
          entropy = v ! 5\<rparr>"
  by (auto simp: from_vector_def getitem_def split: sum.splits)

text \<open>
  C8, as stated: \<open>from_vector\<close> fails for every vector whose length is not 6. It does
  not: a vector of seven entries is converted, the seventh being dropped.
\<close>

theorem from_vector_seven_counterexample:
  "length [1, 2, 3, 4, 5, 6, 7 :: real] \<noteq> 6 \<and>
   from_vector [1, 2, 3, 4, 5, 6, 7] =
     Inr \<lparr>time = 1, intent = 2, policy = 3, trust = 4, risk = 5, entropy = 6\<rparr>"
  by (simp add: from_vector_def getitem_def)

text \<open>
  C8, amended: \<open>from_vector\<close> fails, with an \<open>IndexError\<close>, exactly on the vectors of
  fewer than six entries; on every vector of six entries or more it succeeds and takes
  the first six entries, in the canonical order.
\<close>

theorem from_vector_length:
  "(length v < 6 \<longrightarrow> from_vector v = Inl IndexError) \<and>
   (6 \<le> length v \<longrightarrow>
      from_vector v =
        Inr \<lparr>time = v ! 0, intent = v ! 1, policy = v ! 2, trust = v ! 3, risk = v ! 4,
             entropy = v ! 5\<rparr>)"
  using from_vector_short[of v] from_vector_long[of v] by blast

theorem from_vector_length_witness:
  "from_vector [1, 2, 3] = Inl IndexError \<and>
   from_vector [1, 2, 3, 4, 5, 6] =
     Inr \<lparr>time = 1, intent = 2, policy = 3, trust = 4, risk = 5, entropy = 6\<rparr>"
  using from_vector_length[of "[1, 2, 3]"] from_vector_length[of "[1, 2, 3, 4, 5, 6]"]
  by simp

subsection \<open>Monotonicity of the sum in the deviations\<close>

lemma compute_term_dev:
  "l < 6 \<Longrightarrow> compute_term m x t l =
     TONGUE_WEIGHTS ! l * exp (betas m ! l *
       (compute_deviations m x ! l + 0.1 * sin (TONGUE_FREQUENCIES ! l * t + TONGUE_PHASES ! l)))"
  by (simp add: compute_term_def exp_arg_dev)

lemma betas_init_nth:
  "l < 6 \<Longrightarrow> betas (LanguesMetric_init bb cm io) ! l = bb + 0.1 * cos (TONGUE_PHASES ! l)"
  by (simp add: LanguesMetric_init_def TONGUE_PHASES_def del: upt_Suc)

lemma betas_init_bounds:
  assumes "l < 6"
  shows "bb - 0.1 \<le> betas (LanguesMetric_init bb cm io) ! l"
    and "betas (LanguesMetric_init bb cm io) ! l \<le> bb + 0.1"
proof -
  have "- 1 \<le> cos (TONGUE_PHASES ! l)" "cos (TONGUE_PHASES ! l) \<le> 1" by simp_all
  then show "bb - 0.1 \<le> betas (LanguesMetric_init bb cm io) ! l"
    and "betas (LanguesMetric_init bb cm io) ! l \<le> bb + 0.1"
    using assms by (simp_all add: betas_init_nth)
qed

lemma compute_term_mono:
  assumes "l < 6" "0 < betas m ! l"
    and "compute_deviations m x ! l \<le> compute_deviations m y ! l"
  shows "compute_term m x t l \<le> compute_term m y t l"
  using assms TONGUE_WEIGHTS_pos[of l] by (simp add: compute_term_dev)

lemma compute_term_strict_mono:
  assumes "l < 6" "0 < betas m ! l"
    and "compute_deviations m x ! l < compute_deviations m y ! l"
  shows "compute_term m x t l < compute_term m y t l"
  using assms TONGUE_WEIGHTS_pos[of l] by (simp add: compute_term_dev)

lemma sum6_strict_mono:
  fixes f g :: "nat \<Rightarrow> real"
  assumes "\<forall>l<6. f l \<le> g l" "\<exists>l<6. f l < g l"
  shows "(\<Sum>l\<leftarrow>[0..<6]. f l) < (\<Sum>l\<leftarrow>[0..<6]. g l)"
proof -
  have "sum f {0..<6} < sum g {0..<6}"
    by (rule sum_strict_mono_ex1) (use assms in auto)
  then show ?thesis by (simp add: interv_sum_list_conv_sum_set_nat del: upt_Suc)
qed

lemma compute_strict_mono:
  assumes pos: "\<forall>l<6. 0 < betas m ! l"
    and le: "\<forall>l<6. compute_deviations m x ! l \<le> compute_deviations m y ! l"
    and lt: "\<exists>l<6. compute_deviations m x ! l < compute_deviations m y ! l"
    and below: "compute_spec m x t None < clamp_max m"
  shows "compute_spec m x t None < compute_spec m y t None"
proof -
  let ?Sx = "\<Sum>l\<leftarrow>[0..<6]. compute_term m x t l"
  let ?Sy = "\<Sum>l\<leftarrow>[0..<6]. compute_term m y t l"
  have "?Sx < ?Sy"
  proof (rule sum6_strict_mono)
    show "\<forall>l<6. compute_term m x t l \<le> compute_term m y t l"
      using pos le by (simp add: compute_term_mono)
    show "\<exists>l<6. compute_term m x t l < compute_term m y t l"
      using pos lt compute_term_strict_mono by blast
  qed
  then show ?thesis using below by (simp add: compute_spec_None min_def split: if_splits)
qed

lemma compute_mono:
  assumes pos: "\<forall>l<6. 0 < betas m ! l"
    and le: "\<forall>l<6. compute_deviations m x ! l \<le> compute_deviations m y ! l"
  shows "compute_spec m x t None \<le> compute_spec m y t None"
proof -
  have "(\<Sum>l\<leftarrow>[0..<6]. compute_term m x t l) \<le> (\<Sum>l\<leftarrow>[0..<6]. compute_term m y t l)"
    by (rule sum_list_mono) (use pos le in \<open>simp add: compute_term_mono\<close>)
  then show ?thesis by (simp add: compute_spec_None min_def)
qed

subsection \<open>Bounds for beta_base = 1\<close>

lemma exp_arg_upper:
  fixes b d s D :: real
  assumes "0 < b" "b \<le> 1.1" "0 \<le> d" "d \<le> D" "s \<le> 1"
  shows "b * (d + 0.1 * s) \<le> 1.1 * (D + 0.1)"
proof -
  have "b * (d + 0.1 * s) \<le> b * (D + 0.1)"
    using assms by (intro mult_left_mono) simp_all
  also have "\<dots> \<le> 1.1 * (D + 0.1)"
    using assms by (intro mult_right_mono) simp_all
  finally show ?thesis .
qed

lemma exp_arg_lower:
  fixes b d s D :: real
  assumes "0.9 \<le> b" "0.1 \<le> D" "D \<le> d" "- 1 \<le> s"
  shows "0.9 * (D - 0.1) \<le> b * (d + 0.1 * s)"
proof -
  have "0.9 * (D - 0.1) \<le> b * (D - 0.1)"
    using assms by (intro mult_right_mono) simp_all
  also have "\<dots> \<le> b * (d + 0.1 * s)"
    using assms by (intro mult_left_mono) simp_all
  finally show ?thesis .
qed

lemma exp_arg_lower0:
  fixes b d s :: real
  assumes "0 < b" "b \<le> 1.1" "0 \<le> d" "- 1 \<le> s"
  shows "- 0.11 \<le> b * (d + 0.1 * s)"
proof -
  have "- 0.11 \<le> b * (- 0.1)" using assms by simp
  also have "\<dots> \<le> b * (d + 0.1 * s)"
    using assms by (intro mult_left_mono) simp_all
  finally show ?thesis .
qed

lemma betas_unit:
  assumes "l < 6"
  shows "0.9 \<le> betas (LanguesMetric_init 1 cm io) ! l"
    and "betas (LanguesMetric_init 1 cm io) ! l \<le> 1.1"
    and "0 < betas (LanguesMetric_init 1 cm io) ! l"
  using betas_init_bounds[OF assms, of 1 cm io] by simp_all

lemma term_upper:
  assumes "l < 6" "compute_deviations (LanguesMetric_init 1 cm io) x ! l \<le> D"
  shows "compute_term (LanguesMetric_init 1 cm io) x t l
           \<le> TONGUE_WEIGHTS ! l * exp (1.1 * (D + 0.1))"
proof -
  let ?m = "LanguesMetric_init 1 cm io"
  have "betas ?m ! l * (compute_deviations ?m x ! l
          + 0.1 * sin (TONGUE_FREQUENCIES ! l * t + TONGUE_PHASES ! l)) \<le> 1.1 * (D + 0.1)"
    using betas_unit[OF assms(1), of cm io] compute_deviations_nonneg[OF assms(1), of ?m x] assms(2)
    by (intro exp_arg_upper) simp_all
  then show ?thesis
    using TONGUE_WEIGHTS_pos[OF assms(1)] assms(1) by (simp add: compute_term_dev)
qed

lemma term_lower:
  assumes "l < 6" "0.1 \<le> D" "D \<le> compute_deviations (LanguesMetric_init 1 cm io) x ! l"
  shows "TONGUE_WEIGHTS ! l * exp (0.9 * (D - 0.1))
           \<le> compute_term (LanguesMetric_init 1 cm io) x t l"
proof -
  let ?m = "LanguesMetric_init 1 cm io"
  have "0.9 * (D - 0.1) \<le> betas ?m ! l * (compute_deviations ?m x ! l
          + 0.1 * sin (TONGUE_FREQUENCIES ! l * t + TONGUE_PHASES ! l))"
    using betas_unit[OF assms(1), of cm io] assms(2,3)
    by (intro exp_arg_lower) simp_all
  then show ?thesis
    using TONGUE_WEIGHTS_pos[OF assms(1)] assms(1) by (simp add: compute_term_dev)
qed

lemma term_lower0:
  assumes "l < 6"
  shows "TONGUE_WEIGHTS ! l * exp (- 0.11) \<le> compute_term (LanguesMetric_init 1 cm io) x t l"
proof -
  let ?m = "LanguesMetric_init 1 cm io"
  have "- 0.11 \<le> betas ?m ! l * (compute_deviations ?m x ! l
          + 0.1 * sin (TONGUE_FREQUENCIES ! l * t + TONGUE_PHASES ! l))"
    using betas_unit[OF assms(1), of cm io] compute_deviations_nonneg[OF assms(1), of ?m x]
    by (intro exp_arg_lower0) simp_all
  then show ?thesis
    using TONGUE_WEIGHTS_pos[OF assms(1)] assms(1) by (simp add: compute_term_dev)
qed

lemma exp_2_le_9: "exp (2::real) \<le> 9"
proof -
  have "exp (2::real) = exp 1 ^ 2" using exp_double[of "1::real"] by simp
  also have "\<dots> \<le> 3 ^ 2" by (intro power_mono exp_le) simp
  finally show ?thesis by simp
qed

lemma sum_terms_le9:
  assumes "\<forall>l<6. compute_deviations (LanguesMetric_init 1 cm io) x ! l \<le> 1.7"
  shows "(\<Sum>l\<leftarrow>[0..<6]. compute_term (LanguesMetric_init 1 cm io) x t l)
           \<le> 9 * sum_list TONGUE_WEIGHTS"
proof -
  have "(\<Sum>l\<leftarrow>[0..<6]. compute_term (LanguesMetric_init 1 cm io) x t l)
          \<le> (\<Sum>l\<leftarrow>[0..<6]. TONGUE_WEIGHTS ! l * 9)"
  proof (rule sum_list_mono)
    fix l assume "l \<in> set [0..<6]"
    then have l: "l < 6" by simp
    have "compute_term (LanguesMetric_init 1 cm io) x t l
            \<le> TONGUE_WEIGHTS ! l * exp (1.1 * (1.7 + 0.1))"
      using assms l by (intro term_upper) simp_all
    also have "\<dots> \<le> TONGUE_WEIGHTS ! l * 9"
    proof -
      have "exp (1.1 * (1.7 + 0.1) :: real) \<le> exp 2" by simp
      then have "exp (1.1 * (1.7 + 0.1) :: real) \<le> 9" using exp_2_le_9 by linarith
      then show ?thesis using TONGUE_WEIGHTS_pos[OF l] by (intro mult_left_mono) simp_all
    qed
    finally show "compute_term (LanguesMetric_init 1 cm io) x t l \<le> TONGUE_WEIGHTS ! l * 9" .
  qed
  also have "\<dots> = 9 * sum_list TONGUE_WEIGHTS"
    by (simp add: upt6 TONGUE_WEIGHTS_linear)
  finally show ?thesis .
qed

lemma L_base_rough: "27 < sum_list TONGUE_WEIGHTS" "sum_list TONGUE_WEIGHTS < 28"
  using PHI_bounds by (simp_all add: L_base_eq)

lemma compute_below_clamp:
  assumes "\<forall>l<6. compute_deviations (LanguesMetric_init 1 1000000 io) x ! l \<le> 1.7"
  shows "compute_spec (LanguesMetric_init 1 1000000 io) x t None < 1000000"
    and "compute_spec (LanguesMetric_init 1 1000000 io) x t None < 10 * sum_list TONGUE_WEIGHTS"
proof -
  let ?S = "\<Sum>l\<leftarrow>[0..<6]. compute_term (LanguesMetric_init 1 1000000 io) x t l"
  have S: "?S \<le> 9 * sum_list TONGUE_WEIGHTS" using assms by (rule sum_terms_le9)
  have c: "compute_spec (LanguesMetric_init 1 1000000 io) x t None \<le> ?S"
    by (simp add: compute_spec_None)
  show "compute_spec (LanguesMetric_init 1 1000000 io) x t None < 1000000"
    using S c L_base_rough by linarith
  show "compute_spec (LanguesMetric_init 1 1000000 io) x t None < 10 * sum_list TONGUE_WEIGHTS"
    using S c L_base_rough by linarith
qed

subsection \<open>The two example points of the risk banding\<close>

lemma exp_upper_unit: "0 \<le> x \<Longrightarrow> x \<le> 1 \<Longrightarrow> 1 + x + x\<^sup>2 \<le> c \<Longrightarrow> exp (x::real) \<le> c"
  using exp_bound[of x] by linarith

lemma exp_lower_quad: "0 \<le> x \<Longrightarrow> c \<le> 1 + x + x\<^sup>2 / 2 \<Longrightarrow> c \<le> exp (x::real)"
  using exp_lower_Taylor_quadratic[of x] by linarith

lemma weighted_le: "0 < (w::real) \<Longrightarrow> t \<le> w * e \<Longrightarrow> e \<le> c \<Longrightarrow> t \<le> w * c"
  by (meson mult_left_mono order_trans less_imp_le)

lemma weighted_ge: "0 < (w::real) \<Longrightarrow> w * e \<le> t \<Longrightarrow> c \<le> e \<Longrightarrow> w * c \<le> t"
  by (meson mult_left_mono order_trans less_imp_le)

lemma deviations_ideal:
  "compute_deviations (LanguesMetric_init bb cm None)
     \<lparr>time = 0, intent = 0, policy = 0.5, trust = 0.9, risk = 0.1, entropy = 0.2\<rparr>
   = [0, 0, 0, 0, 0, 0]"
  by (simp add: compute_deviations_def LanguesMetric_init_def IdealState_default_def
      ideal_to_vector_def to_vector_def upt6)

lemma deviations_attack:
  "compute_deviations (LanguesMetric_init bb cm None)
     \<lparr>time = 0, intent = 1.5, policy = 0.1, trust = 0.2, risk = 0.9, entropy = 0.8\<rparr>
   = [0, 1.5, 0.4, 0.7, 0.8, 0.6]"
  by (simp add: compute_deviations_def LanguesMetric_init_def IdealState_default_def
      ideal_to_vector_def to_vector_def upt6)

lemma all_less6: "(\<forall>l<6. P l) \<longleftrightarrow> P 0 \<and> P 1 \<and> P 2 \<and> P 3 \<and> P 4 \<and> P (5::nat)"
proof -
  have "\<And>l::nat. l < 6 \<longleftrightarrow> l = 0 \<or> l = 1 \<or> l = 2 \<or> l = 3 \<or> l = 4 \<or> l = 5" by arith
  then show ?thesis by auto
qed

lemma weights_scaled:
  "(\<Sum>l\<leftarrow>[0..<6]. TONGUE_WEIGHTS ! l * c) = c * sum_list TONGUE_WEIGHTS"
  by (simp add: upt6 TONGUE_WEIGHTS_linear algebra_simps)

lemma ideal_point_low:
  "compute_spec (LanguesMetric_init 1 1000000 None)
     \<lparr>time = 0, intent = 0, policy = 0.5, trust = 0.9, risk = 0.1, entropy = 0.2\<rparr> 0 None
   < 1.5 * sum_list TONGUE_WEIGHTS"
proof -
  let ?m = "LanguesMetric_init 1 1000000 None"
  let ?x = "\<lparr>time = 0, intent = 0, policy = 0.5, trust = 0.9, risk = 0.1, entropy = 0.2\<rparr>"
  have "(\<Sum>l\<leftarrow>[0..<6]. compute_term ?m ?x 0 l) \<le> (\<Sum>l\<leftarrow>[0..<6]. TONGUE_WEIGHTS ! l * 1.2)"
  proof (rule sum_list_mono)
    fix l assume "l \<in> set [0..<6]"
    then have l: "l < 6" by simp
    have d: "compute_deviations ?m ?x ! l \<le> 0"
      using l deviations_ideal[of 1 1000000] by (simp add: nth_Cons')
    have e: "exp (1.1 * (0 + 0.1) :: real) \<le> 1.2"
      by (rule exp_upper_unit) (simp_all add: power2_eq_square)
    show "compute_term ?m ?x 0 l \<le> TONGUE_WEIGHTS ! l * 1.2"
      by (rule weighted_le[OF TONGUE_WEIGHTS_pos[OF l] term_upper[OF l d] e])
  qed
  also have "\<dots> = 1.2 * sum_list TONGUE_WEIGHTS"
    by (rule weights_scaled)
  finally have "(\<Sum>l\<leftarrow>[0..<6]. compute_term ?m ?x 0 l) \<le> 1.2 * sum_list TONGUE_WEIGHTS" .
  moreover have "compute_spec ?m ?x 0 None \<le> (\<Sum>l\<leftarrow>[0..<6]. compute_term ?m ?x 0 l)"
    by (simp add: compute_spec_None)
  ultimately show ?thesis using L_base_rough by linarith
qed

lemma attack_point_bounds:
  "1.5 * sum_list TONGUE_WEIGHTS \<le>
     compute_spec (LanguesMetric_init 1 1000000 None)
       \<lparr>time = 0, intent = 1.5, policy = 0.1, trust = 0.2, risk = 0.9, entropy = 0.8\<rparr> 0 None"
  "compute_spec (LanguesMetric_init 1 1000000 None)
       \<lparr>time = 0, intent = 1.5, policy = 0.1, trust = 0.2, risk = 0.9, entropy = 0.8\<rparr> 0 None
     < 3 * sum_list TONGUE_WEIGHTS"
proof -
  let ?m = "LanguesMetric_init 1 1000000 None"
  let ?x = "\<lparr>time = 0, intent = 1.5, policy = 0.1, trust = 0.2, risk = 0.9, entropy = 0.8\<rparr>"
  let ?S = "\<Sum>l\<leftarrow>[0..<6]. compute_term ?m ?x 0 l"
  have S: "?S = compute_term ?m ?x 0 0 + compute_term ?m ?x 0 1 + compute_term ?m ?x 0 2
      + compute_term ?m ?x 0 3 + compute_term ?m ?x 0 4 + compute_term ?m ?x 0 5"
    by (simp add: upt6)
  have w: "TONGUE_WEIGHTS ! 0 = 1" "TONGUE_WEIGHTS ! 1 = PHI" "TONGUE_WEIGHTS ! 2 = PHI + 1"
    "TONGUE_WEIGHTS ! 3 = 2 * PHI + 1" "TONGUE_WEIGHTS ! 4 = 3 * PHI + 2"
    "TONGUE_WEIGHTS ! 5 = 5 * PHI + 3"
    by (simp_all add: TONGUE_WEIGHTS_linear)
  have wp: "0 < (1::real)" "0 < PHI" "0 < PHI + 1" "0 < 2 * PHI + 1" "0 < 3 * PHI + 2"
    "0 < 5 * PHI + 3"
    using PHI_pos by simp_all
  have u0: "compute_term ?m ?x 0 0 \<le> 1 * 1.1221"
    by (rule weighted_le[OF wp(1) term_upper[of 0 _ _ _ 0, unfolded w] exp_upper_unit])
       (use deviations_attack[of 1 1000000] in \<open>simp_all add: power2_eq_square\<close>)
  have e1: "exp (1.1 * (1.5 + 0.1) :: real) \<le> 7.046"
  proof -
    have "exp (0.88::real) \<le> 2.6544"
      by (rule exp_upper_unit) (simp_all add: power2_eq_square)
    then have "exp (0.88::real) ^ 2 \<le> 2.6544 ^ 2"
      by (intro power_mono) simp_all
    moreover have "exp (1.1 * (1.5 + 0.1) :: real) = exp 0.88 ^ 2"
      using exp_double[of "0.88::real"] by simp
    ultimately show ?thesis by (simp add: power2_eq_square)
  qed
  have u1: "compute_term ?m ?x 0 1 \<le> PHI * 7.046"
    by (rule weighted_le[OF wp(2) term_upper[of 1 _ _ _ "1.5", unfolded w] e1])
       (use deviations_attack[of 1 1000000] in simp_all)
  have u2: "compute_term ?m ?x 0 2 \<le> (PHI + 1) * 1.8525"
    by (rule weighted_le[OF wp(3) term_upper[of 2 _ _ _ "0.4", unfolded w] exp_upper_unit])
       (use deviations_attack[of 1 1000000] in \<open>simp_all add: power2_eq_square\<close>)
  have u3: "compute_term ?m ?x 0 3 \<le> (2 * PHI + 1) * 2.6544"
    by (rule weighted_le[OF wp(4) term_upper[of 3 _ _ _ "0.7", unfolded w] exp_upper_unit])
       (use deviations_attack[of 1 1000000] in \<open>simp_all add: power2_eq_square\<close>)
  have u4: "compute_term ?m ?x 0 4 \<le> (3 * PHI + 2) * 2.9701"
    by (rule weighted_le[OF wp(5) term_upper[of 4 _ _ _ "0.8", unfolded w] exp_upper_unit])
       (use deviations_attack[of 1 1000000] in \<open>simp_all add: power2_eq_square\<close>)
  have u5: "compute_term ?m ?x 0 5 \<le> (5 * PHI + 3) * 2.3629"
    by (rule weighted_le[OF wp(6) term_upper[of 5 _ _ _ "0.6", unfolded w] exp_upper_unit])
       (use deviations_attack[of 1 1000000] in \<open>simp_all add: power2_eq_square\<close>)
  have e0: "(0.89::real) \<le> exp (- 0.11)"
    using exp_ge_add_one_self[of "- 0.11 :: real"] by simp
  have lo0: "1 * 0.89 \<le> compute_term ?m ?x 0 0"
    by (rule weighted_ge[OF wp(1) term_lower0[of 0, unfolded w] e0]) simp
  have lo1: "PHI * 3.0538 \<le> compute_term ?m ?x 0 1"
    by (rule weighted_ge[OF wp(2) term_lower[of 1 "1.5", unfolded w] exp_lower_quad])
       (use deviations_attack[of 1 1000000] in \<open>simp_all add: power2_eq_square\<close>)
  have lo2: "(PHI + 1) * 1.30645 \<le> compute_term ?m ?x 0 2"
    by (rule weighted_ge[OF wp(3) term_lower[of 2 "0.4", unfolded w] exp_lower_quad])
       (use deviations_attack[of 1 1000000] in \<open>simp_all add: power2_eq_square\<close>)
  have lo3: "(2 * PHI + 1) * 1.6858 \<le> compute_term ?m ?x 0 3"
    by (rule weighted_ge[OF wp(4) term_lower[of 3 "0.7", unfolded w] exp_lower_quad])
       (use deviations_attack[of 1 1000000] in \<open>simp_all add: power2_eq_square\<close>)
  have lo4: "(3 * PHI + 2) * 1.82845 \<le> compute_term ?m ?x 0 4"
    by (rule weighted_ge[OF wp(5) term_lower[of 4 "0.8", unfolded w] exp_lower_quad])
       (use deviations_attack[of 1 1000000] in \<open>simp_all add: power2_eq_square\<close>)
  have lo5: "(5 * PHI + 3) * 1.55125 \<le> compute_term ?m ?x 0 5"
    by (rule weighted_ge[OF wp(6) term_lower[of 5 "0.6", unfolded w] exp_lower_quad])
       (use deviations_attack[of 1 1000000] in \<open>simp_all add: power2_eq_square\<close>)
  have up: "?S < 3 * sum_list TONGUE_WEIGHTS"
    unfolding S L_base_eq using u0 u1 u2 u3 u4 u5 PHI_pos by (simp add: algebra_simps)
  have lo: "1.5 * sum_list TONGUE_WEIGHTS \<le> ?S"
    unfolding S L_base_eq using lo0 lo1 lo2 lo3 lo4 lo5 PHI_pos by (simp add: algebra_simps)
  have "?S < 1000000" using up L_base_rough by linarith
  then have c: "compute_spec ?m ?x 0 None = ?S"
    by (simp add: compute_spec_None LanguesMetric_init_def)
  show "1.5 * sum_list TONGUE_WEIGHTS \<le> compute_spec ?m ?x 0 None" using lo c by simp
  show "compute_spec ?m ?x 0 None < 3 * sum_list TONGUE_WEIGHTS" using up c by simp
qed


subsection \<open>No overflow for moderate deviations\<close>

lemma exp_arg_le:
  assumes "l < 6" "compute_deviations (LanguesMetric_init 1 cm io) x ! l \<le> D"
  shows "exp_arg (LanguesMetric_init 1 cm io) x t l \<le> 1.1 * (D + 0.1)"
  unfolding exp_arg_dev[OF assms(1)]
  using betas_unit[OF assms(1), of cm io]
    compute_deviations_nonneg[OF assms(1), of "LanguesMetric_init 1 cm io" x] assms(2)
  by (intro exp_arg_upper) simp_all

lemma exp_arg_ge:
  assumes "l < 6" "0.1 \<le> D" "D \<le> compute_deviations (LanguesMetric_init 1 cm io) x ! l"
  shows "0.9 * (D - 0.1) \<le> exp_arg (LanguesMetric_init 1 cm io) x t l"
  unfolding exp_arg_dev[OF assms(1)]
  using betas_unit[OF assms(1), of cm io] assms(2,3)
  by (intro exp_arg_lower) simp_all

lemma no_overflow:
  assumes "\<forall>l<6. compute_deviations (LanguesMetric_init 1 cm io) x ! l \<le> 30"
  shows "\<forall>l<6. exp (exp_arg (LanguesMetric_init 1 cm io) x t l) \<le> DBL_MAX"
proof (intro allI impI)
  fix l :: nat assume l: "l < 6"
  have "exp_arg (LanguesMetric_init 1 cm io) x t l \<le> 1.1 * (30 + 0.1)"
    using assms l by (intro exp_arg_le) simp_all
  then have "exp_arg (LanguesMetric_init 1 cm io) x t l \<le> 34" by simp
  then show "exp (exp_arg (LanguesMetric_init 1 cm io) x t l) \<le> DBL_MAX"
    by (rule exp_in_range)
qed

lemma compute_default_returns:
  assumes "\<forall>l<6. compute_deviations (LanguesMetric_init 1 cm io) x ! l \<le> 30"
  shows "compute (LanguesMetric_init 1 cm io) x t a
           = Inr (compute_spec (LanguesMetric_init 1 cm io) x t a)"
  using no_overflow[OF assms] by (intro compute_returns) simp

lemma compute_default_raises:
  assumes "l < 6" "\<not> tongue_skipped a l"
    and "1000 \<le> compute_deviations (LanguesMetric_init 1 cm io) x ! l"
  shows "compute (LanguesMetric_init 1 cm io) x t a = Inl OverflowError"
proof -
  have "0.9 * (1000 - 0.1) \<le> exp_arg (LanguesMetric_init 1 cm io) x t l"
    using assms(1,3) by (intro exp_arg_ge) simp_all
  then have "798 \<le> exp_arg (LanguesMetric_init 1 cm io) x t l" by simp
  then have "DBL_MAX < exp (exp_arg (LanguesMetric_init 1 cm io) x t l)"
    by (rule exp_out_of_range)
  then show ?thesis by (rule compute_raises[OF assms(1,2)])
qed

subsection \<open>Risk banding of the two example points\<close>

lemma risk_level_low: "L < 1.5 * sum_list TONGUE_WEIGHTS \<Longrightarrow> risk_level L = (''LOW'', ''ALLOW'')"
  by (simp add: risk_level_def Let_def)

lemma risk_level_medium:
  "1.5 * sum_list TONGUE_WEIGHTS \<le> L \<Longrightarrow> L < 3 * sum_list TONGUE_WEIGHTS \<Longrightarrow>
   risk_level L = (''MEDIUM'', ''QUARANTINE'')"
  by (simp add: risk_level_def Let_def)

lemma compute_ideal_point:
  "compute (LanguesMetric_init 1 1000000 None)
     \<lparr>time = 0, intent = 0, policy = 0.5, trust = 0.9, risk = 0.1, entropy = 0.2\<rparr> 0 None
   = Inr (compute_spec (LanguesMetric_init 1 1000000 None)
     \<lparr>time = 0, intent = 0, policy = 0.5, trust = 0.9, risk = 0.1, entropy = 0.2\<rparr> 0 None)"
  by (rule compute_default_returns) (use deviations_ideal[of 1 1000000] in \<open>simp add: all_less6\<close>)

lemma compute_attack_point:
  "compute (LanguesMetric_init 1 1000000 None)
     \<lparr>time = 0, intent = 1.5, policy = 0.1, trust = 0.2, risk = 0.9, entropy = 0.8\<rparr> 0 None
   = Inr (compute_spec (LanguesMetric_init 1 1000000 None)
     \<lparr>time = 0, intent = 1.5, policy = 0.1, trust = 0.2, risk = 0.9, entropy = 0.8\<rparr> 0 None)"
  by (rule compute_default_returns) (use deviations_attack[of 1 1000000] in \<open>simp add: all_less6\<close>)

text \<open>
  C2, as stated: at \<open>t = 0\<close>, with the default metric, the point \<open>time = 0, intent = 1.5,
  policy = 0.1, trust = 0.2, risk = 0.9, entropy = 0.8\<close> is classified CRITICAL/DENY.
  It is not: its value, about 54.2, is below \<open>10 L_base\<close>, about 274.2.
\<close>

theorem attack_point_counterexample:
  "\<not> (\<exists>L. compute (LanguesMetric_init 1 1000000 None)
          \<lparr>time = 0, intent = 1.5, policy = 0.1, trust = 0.2, risk = 0.9, entropy = 0.8\<rparr> 0 None
            = Inr L \<and>
          risk_level L = (''CRITICAL'', ''DENY''))"
  using risk_level_medium[OF attack_point_bounds] compute_attack_point by simp

text \<open>
  C2, amended: at \<open>t = 0\<close>, with the default metric (\<open>beta_base = 1\<close>, default ideal
  state), the point equal to the ideal state is classified LOW/ALLOW, and the point
  \<open>time = 0, intent = 1.5, policy = 0.1, trust = 0.2, risk = 0.9, entropy = 0.8\<close> is
  classified MEDIUM/QUARANTINE: its value lies between \<open>1.5 L_base\<close> and \<open>3 L_base\<close>.
\<close>

theorem risk_banding_examples:
  "(\<exists>L. compute (LanguesMetric_init 1 1000000 None)
        \<lparr>time = 0, intent = 0, policy = 0.5, trust = 0.9, risk = 0.1, entropy = 0.2\<rparr> 0 None
          = Inr L \<and>
        risk_level L = (''LOW'', ''ALLOW'')) \<and>
   (\<exists>L. compute (LanguesMetric_init 1 1000000 None)
        \<lparr>time = 0, intent = 1.5, policy = 0.1, trust = 0.2, risk = 0.9, entropy = 0.8\<rparr> 0 None
          = Inr L \<and>
        risk_level L = (''MEDIUM'', ''QUARANTINE''))"
  using risk_level_low[OF ideal_point_low] risk_level_medium[OF attack_point_bounds]
    compute_ideal_point compute_attack_point
  by simp

subsection \<open>Overflow is raised, not clamped\<close>

lemma compute_term_pos: "l < 6 \<Longrightarrow> 0 < compute_term m x t l"
  using TONGUE_WEIGHTS_pos[of l] by (simp add: compute_term_def)

lemma deviations_default_point:
  "compute_deviations (LanguesMetric_init bb cm None) HyperspacePoint_default
     = [0, 0, 0.5, 0.1, 0, 0.1]"
  by (simp add: compute_deviations_def LanguesMetric_init_def IdealState_default_def
      ideal_to_vector_def to_vector_def upt6 HyperspacePoint_default_def)

text \<open>
  C1, at \<open>HyperspacePoint(time=1000.0)\<close> with the default metric and \<open>t = 0\<close>: the clamped
  sum of the claim is \<open>clamp_max = 1e6\<close>, and \<open>compute\<close> raises \<open>OverflowError\<close> from
  \<open>math.exp\<close> in the first round of its loop instead of returning it.
\<close>

theorem compute_raises_where_sum_is_clamped:
  "compute LanguesMetric_default
     \<lparr>time = 1000, intent = 0, policy = 0, trust = 0.8, risk = 0.1, entropy = 0.1\<rparr> 0 None
     = Inl OverflowError \<and>
   compute_spec LanguesMetric_default
     \<lparr>time = 1000, intent = 0, policy = 0, trust = 0.8, risk = 0.1, entropy = 0.1\<rparr> 0 None
     = 1000000"
proof
  let ?m = "LanguesMetric_init 1 1000000 None"
  let ?x = "\<lparr>time = 1000, intent = 0, policy = 0, trust = 0.8, risk = 0.1, entropy = 0.1\<rparr>"
  have d0: "compute_deviations ?m ?x ! 0 = 1000"
    by (simp add: compute_deviations_def LanguesMetric_init_def IdealState_default_def
        ideal_to_vector_def to_vector_def upt6)
  show "compute LanguesMetric_default ?x 0 None = Inl OverflowError"
    unfolding LanguesMetric_default_def
    by (rule compute_default_raises[of 0]) (use d0 in \<open>simp_all add: not_skipped_None\<close>)
  have "0.9 * (1000 - 0.1) \<le> exp_arg ?m ?x 0 0"
    by (rule exp_arg_ge) (use d0 in simp_all)
  then have "798 \<le> exp_arg ?m ?x 0 0" by simp
  then have "DBL_MAX < exp (exp_arg ?m ?x 0 0)" by (rule exp_out_of_range)
  moreover have "1000000 \<le> DBL_MAX" using DBL_MAX_ge by simp
  moreover have "TONGUE_WEIGHTS ! 0 = 1" by (simp add: TONGUE_WEIGHTS_linear)
  ultimately have "1000000 < compute_term ?m ?x 0 0" by (simp add: compute_term_def)
  also have "\<dots> \<le> (\<Sum>l\<leftarrow>[0..<6]. compute_term ?m ?x 0 l)"
    using compute_term_pos[of 1 ?m ?x 0] compute_term_pos[of 2 ?m ?x 0]
      compute_term_pos[of 3 ?m ?x 0] compute_term_pos[of 4 ?m ?x 0] compute_term_pos[of 5 ?m ?x 0]
    by (simp add: upt6)
  finally show "compute_spec LanguesMetric_default ?x 0 None = 1000000"
    by (simp add: compute_spec_None LanguesMetric_default_def LanguesMetric_init_def)
qed

text \<open>
  C3, at \<open>HyperspacePoint(intent=1000.0)\<close> with the default metric and \<open>t = 0\<close>: \<open>compute\<close>
  does not terminate normally with a value between 0 and \<open>clamp_max\<close>; the
  \<open>OverflowError\<close> of \<open>math.exp\<close>, in the second round of the loop, is raised before the
  clamp is reached.
\<close>

theorem compute_overflow_is_raised:
  "compute LanguesMetric_default
     \<lparr>time = 0, intent = 1000, policy = 0, trust = 0.8, risk = 0.1, entropy = 0.1\<rparr> 0 None
   = Inl OverflowError"
proof -
  let ?m = "LanguesMetric_init 1 1000000 None"
  let ?x = "\<lparr>time = 0, intent = 1000, policy = 0, trust = 0.8, risk = 0.1, entropy = 0.1\<rparr>"
  have d1: "compute_deviations ?m ?x ! 1 = 1000"
    by (simp add: compute_deviations_def LanguesMetric_init_def IdealState_default_def
        ideal_to_vector_def to_vector_def upt6)
  show ?thesis
    unfolding LanguesMetric_default_def
    by (rule compute_default_raises[of 1]) (use d1 in \<open>simp_all add: not_skipped_None\<close>)
qed

subsection \<open>The monotonicity self-check returns true\<close>







subsection \<open>The empty tongue list\<close>




subsection \<open>The default point\<close>

text \<open>
  C10. The default point is not the ideal state: its \<open>policy = 0\<close>, \<open>trust = 0.8\<close>,
  \<open>entropy = 0.1\<close> differ from the ideal \<open>0.5\<close>, \<open>0.9\<close>, \<open>0.2\<close>; its deviations under the
  default metric are \<open>(0, 0, 0.5, 0.1, 0, 0.1)\<close>, the entry of \<open>trust\<close> to within the
  rounding of the subtraction \<open>0.8 - 0.9\<close>, and at \<open>t = 0\<close> the value of \<open>compute\<close> at the
  default point strictly exceeds its value at the ideal state.
\<close>

theorem default_point_is_not_ideal:
  "policy HyperspacePoint_default = 0 \<and> trust HyperspacePoint_default = 0.8 \<and>
   entropy HyperspacePoint_default = 0.1 \<and>
   ideal_policy IdealState_default = 0.5 \<and> ideal_trust IdealState_default = 0.9 \<and>
   ideal_entropy IdealState_default = 0.2 \<and>
   to_vector HyperspacePoint_default \<noteq> ideal_to_vector IdealState_default \<and>
   length (compute_deviations LanguesMetric_default HyperspacePoint_default) = 6 \<and>
   compute_deviations LanguesMetric_default HyperspacePoint_default ! 0 = 0 \<and>
   compute_deviations LanguesMetric_default HyperspacePoint_default ! 1 = 0 \<and>
   compute_deviations LanguesMetric_default HyperspacePoint_default ! 2 = 0.5 \<and>
   \<bar>compute_deviations LanguesMetric_default HyperspacePoint_default ! 3 - 0.1\<bar>
      \<le> 1 / 10 ^ 15 \<and>
   compute_deviations LanguesMetric_default HyperspacePoint_default ! 4 = 0 \<and>
   compute_deviations LanguesMetric_default HyperspacePoint_default ! 5 = 0.1 \<and>
   (\<exists>L_ideal L_default.
      compute LanguesMetric_default
        \<lparr>time = 0, intent = 0, policy = 0.5, trust = 0.9, risk = 0.1, entropy = 0.2\<rparr> 0 None
        = Inr L_ideal \<and>
      compute LanguesMetric_default HyperspacePoint_default 0 None = Inr L_default \<and>
      L_ideal < L_default)"
proof -
  let ?m = "LanguesMetric_init 1 1000000 None"
  let ?x = "\<lparr>time = 0, intent = 0, policy = 0.5, trust = 0.9, risk = 0.1, entropy = 0.2\<rparr>"
  have dd: "compute_deviations ?m HyperspacePoint_default = [0, 0, 0.5, 0.1, 0, 0.1]"
    by (rule deviations_default_point)
  have di: "compute_deviations ?m ?x = [0, 0, 0, 0, 0, 0]" by (rule deviations_ideal)
  have lt: "compute_spec ?m ?x 0 None < compute_spec ?m HyperspacePoint_default 0 None"
  proof (rule compute_strict_mono)
    show "\<forall>l<6. 0 < betas ?m ! l" using betas_unit(3) by blast
    show "\<forall>l<6. compute_deviations ?m ?x ! l \<le> compute_deviations ?m HyperspacePoint_default ! l"
      unfolding dd di by (simp add: all_less6)
    show "\<exists>l<6. compute_deviations ?m ?x ! l < compute_deviations ?m HyperspacePoint_default ! l"
      unfolding dd di by (intro exI[of _ 2]) simp
    have "\<forall>l<6. compute_deviations ?m ?x ! l \<le> 1.7"
      unfolding di by (simp add: all_less6)
    from compute_below_clamp(1)[OF this] show "compute_spec ?m ?x 0 None < clamp_max ?m"
      by (simp add: LanguesMetric_init_def)
  qed
  have rd: "compute ?m HyperspacePoint_default 0 None
              = Inr (compute_spec ?m HyperspacePoint_default 0 None)"
    by (rule compute_default_returns) (simp add: dd all_less6)
  have ex: "\<exists>L_ideal L_default.
      compute LanguesMetric_default ?x 0 None = Inr L_ideal \<and>
      compute LanguesMetric_default HyperspacePoint_default 0 None = Inr L_default \<and>
      L_ideal < L_default"
    unfolding LanguesMetric_default_def using compute_ideal_point rd lt by blast
  have fields: "policy HyperspacePoint_default = 0 \<and> trust HyperspacePoint_default = 0.8 \<and>
     entropy HyperspacePoint_default = 0.1 \<and>
     ideal_policy IdealState_default = 0.5 \<and> ideal_trust IdealState_default = 0.9 \<and>
     ideal_entropy IdealState_default = 0.2 \<and>
     to_vector HyperspacePoint_default \<noteq> ideal_to_vector IdealState_default"
    by (simp add: HyperspacePoint_default_def IdealState_default_def to_vector_def
        ideal_to_vector_def)
  have devs: "length (compute_deviations LanguesMetric_default HyperspacePoint_default) = 6 \<and>
     compute_deviations LanguesMetric_default HyperspacePoint_default ! 0 = 0 \<and>
     compute_deviations LanguesMetric_default HyperspacePoint_default ! 1 = 0 \<and>
     compute_deviations LanguesMetric_default HyperspacePoint_default ! 2 = 0.5 \<and>
     \<bar>compute_deviations LanguesMetric_default HyperspacePoint_default ! 3 - 0.1\<bar>
        \<le> 1 / 10 ^ 15 \<and>
     compute_deviations LanguesMetric_default HyperspacePoint_default ! 4 = 0 \<and>
     compute_deviations LanguesMetric_default HyperspacePoint_default ! 5 = 0.1"
    unfolding LanguesMetric_default_def dd by simp
  from fields devs ex show ?thesis by blast
qed

subsection \<open>The gradient\<close>







subsection \<open>The distance\<close>

lemma float_pow2_commute: "float_pow2 (a - b) = float_pow2 (b - a)"
  by (simp add: float_pow2_def power2_commute[of a b])

lemma distance_loop_commute: "distance_loop v1 v2 d_sq ls = distance_loop v2 v1 d_sq ls"
proof (induction ls arbitrary: d_sq)
  case Nil
  show ?case by simp
next
  case (Cons l ls)
  show ?case
    by (simp add: Let_def float_pow2_commute[of "v1 ! l" "v2 ! l"] Cons.IH split: sum.split)
qed

lemma DBL_MAX_pos: "0 \<le> DBL_MAX"
  by (simp add: DBL_MAX_def)

lemma distance_loop_same: "distance_loop v v 0 ls = Inr 0"
  using DBL_MAX_pos by (induction ls) (simp_all add: float_pow2_def not_less)

lemma to_vector_eq:
  "to_vector a = to_vector b \<longleftrightarrow>
     time a = time b \<and> intent a = intent b \<and> policy a = policy b \<and>
     trust a = trust b \<and> risk a = risk b \<and> entropy a = entropy b"
  by (simp add: to_vector_def)

text \<open>
  C7, as stated: \<open>langues_distance\<close> gives every pair of points a distance that obeys
  the laws of a metric. For two points whose \<open>time\<close> differs by \<open>1e200\<close> it gives none:
  the square \<open>diff ** 2\<close> raises \<open>OverflowError\<close>.
\<close>

theorem langues_distance_overflow_counterexample:
  "langues_distance
     \<lparr>time = 10 ^ 200, intent = 0, policy = 0, trust = 0.8, risk = 0.1, entropy = 0.1\<rparr>
     \<lparr>time = 0, intent = 0, policy = 0, trust = 0.8, risk = 0.1, entropy = 0.1\<rparr> None
   = Inl OverflowError"
proof -
  have "DBL_MAX < 2 ^ 1024" by (simp add: DBL_MAX_def)
  also have "(2::real) ^ 1024 \<le> (2 ^ 3) ^ 400" by (simp only: power_mult [symmetric]) simp
  also have "\<dots> \<le> (10::real) ^ 400" by (intro power_mono) simp_all
  also have "\<dots> = ((10::real) ^ 200) ^ 2" by (simp only: power_mult [symmetric]) simp
  finally have sq: "DBL_MAX < ((10::real) ^ 200) ^ 2" .
  have "float_pow2 (10 ^ 200) = Inl OverflowError"
    by (simp only: float_pow2_def sq if_True)
  then show ?thesis
    by (simp add: langues_distance_def to_vector_def upt6 Let_def)
qed

text \<open>
  C7, amended: \<open>langues_distance\<close> is symmetric (the two calls return the same number,
  or both raise), and it is zero when the six fields of the two points are equal.
\<close>

theorem langues_distance_symmetric_zero:
  "langues_distance a b M = langues_distance b a M \<and>
   (time a = time b \<and> intent a = intent b \<and> policy a = policy b \<and>
    trust a = trust b \<and> risk a = risk b \<and> entropy a = entropy b
    \<longrightarrow> langues_distance a b M = Inr 0)"
proof (intro conjI impI)
  show "langues_distance a b M = langues_distance b a M"
    by (simp add: langues_distance_def Let_def
        distance_loop_commute[of "to_vector a" "to_vector b"])
  assume "time a = time b \<and> intent a = intent b \<and> policy a = policy b \<and>
    trust a = trust b \<and> risk a = risk b \<and> entropy a = entropy b"
  then have "to_vector a = to_vector b" by (simp add: to_vector_eq)
  then show "langues_distance a b M = Inr 0"
    by (simp add: langues_distance_def Let_def distance_loop_same del: upt_Suc)
qed

theorem langues_distance_symmetric_zero_witness:
  "langues_distance HyperspacePoint_default HyperspacePoint_default None = Inr 0"
  using langues_distance_symmetric_zero[of HyperspacePoint_default HyperspacePoint_default None]
  by simp

end
